theory Spec2Isabelle
  imports Complex_Main "HOL-Library.Word" "HOL-Library.Log_Nat"
begin

section \<open>Champions Express: clubs, players and statistics\<close>

text \<open>
  A shallow embedding of the domain services (\<^verbatim>\<open>services/clubs-service.ts\<close>,
  \<^verbatim>\<open>services/players-service.ts\<close>) and of the repositories below them
  (\<^verbatim>\<open>repositories/clubs-repository.ts\<close>, \<^verbatim>\<open>repositories/players-repository.ts\<close>).
  The repositories call the Prisma client on an SQLite database whose tables are those of
  \<^verbatim>\<open>prisma/schema.prisma\<close> and \<^verbatim>\<open>migration.sql\<close>; the database is an explicit
  state, every service operation takes it and returns it, and every \<^verbatim>\<open>throw\<close> is a value
  \<open>Inl e\<close>.

  Numbers: identifiers and scores are \<^verbatim>\<open>Int\<close> columns, so the TypeScript \<^verbatim>\<open>number\<close>
  arguments are modelled as \<^typ>\<open>int\<close> (\<^verbatim>\<open>NaN\<close> and fractions are outside the model).
  For an integer \<open>i\<close> the test \<^verbatim>\<open>!i || i <= 0\<close> is \<open>i = 0 \<or> i \<le> 0\<close>.
\<close>

subsection \<open>Strings\<close>

text \<open>
  A JavaScript string is a sequence of 16-bit code units. \<^verbatim>\<open>String.prototype.trim\<close>
  removes the ECMAScript white space and line terminator code points from both ends.
\<close>

type_synonym js_string = "16 word list"

definition js :: "string \<Rightarrow> js_string" where
  "js s = map (\<lambda>c. of_nat (of_char c)) s"

definition isWhiteSpace :: "16 word \<Rightarrow> bool" where
  "isWhiteSpace c \<longleftrightarrow>
     c \<in> set [9, 10, 11, 12, 13, 32, 160, 5760, 8192, 8193, 8194, 8195, 8196, 8197, 8198,
              8199, 8200, 8201, 8202, 8232, 8233, 8239, 8287, 12288, 65279]"

definition trim :: "js_string \<Rightarrow> js_string" where
  "trim s = rev (dropWhile isWhiteSpace (rev (dropWhile isWhiteSpace s)))"

subsection \<open>The tables\<close>

text \<open>
  \<^verbatim>\<open>clubs(id, name)\<close>, \<^verbatim>\<open>players(id, name, nationality, position, clubId)\<close> and
  \<^verbatim>\<open>statistics(id, overall, pace, shooting, passing, dribbling, defending, physical, playerId)\<close>.
  A table is the list of its rows in storage order; each table has the counter that SQLite
  keeps for an \<^verbatim>\<open>AUTOINCREMENT\<close> key.
\<close>

record club_row =
  club_id :: int
  club_name :: js_string

record player_row =
  player_id :: int
  player_name :: js_string
  player_nationality :: js_string
  player_position :: js_string
  player_clubId :: int

record statistics_row =
  statistics_id :: int
  overall :: int
  pace :: int
  shooting :: int
  passing :: int
  dribbling :: int
  defending :: int
  physical :: int
  statistics_playerId :: int

record database =
  clubs :: "club_row list"
  players :: "player_row list"
  statistics :: "statistics_row list"
  clubs_seq :: int
  players_seq :: int
  statistics_seq :: int

definition empty_database :: database where
  "empty_database =
     \<lparr>clubs = [], players = [], statistics = [], clubs_seq = 0, players_seq = 0, statistics_seq = 0\<rparr>"

text \<open>The constraints of \<^verbatim>\<open>migration.sql\<close>: primary keys, the two unique indexes and the
  two foreign keys.\<close>

definition schema_ok :: "database \<Rightarrow> bool" where
  "schema_ok db \<longleftrightarrow>
     distinct (map club_id (clubs db)) \<and>
     distinct (map club_name (clubs db)) \<and>
     distinct (map player_id (players db)) \<and>
     distinct (map statistics_id (statistics db)) \<and>
     distinct (map statistics_playerId (statistics db)) \<and>
     list_all (\<lambda>p. player_clubId p \<in> set (map club_id (clubs db))) (players db) \<and>
     list_all (\<lambda>s. statistics_playerId s \<in> set (map player_id (players db))) (statistics db)"

text \<open>\<^verbatim>\<open>AUTOINCREMENT\<close>: one more than the largest key ever used in the table.\<close>

definition next_id :: "int \<Rightarrow> int list \<Rightarrow> int" where
  "next_id seq ids = fold max ids seq + 1"

subsection \<open>Query results with their relations\<close>

text \<open>
  \<^verbatim>\<open>include: { players: { include: { statistics: true } } }\<close> attaches to a club its players,
  each with its statistics row or \<^verbatim>\<open>null\<close>; \<^verbatim>\<open>include: { club: true, statistics: true }\<close>
  attaches to a player its club and its statistics row or \<^verbatim>\<open>null\<close>.
\<close>

record player_with_statistics = player_row +
  incl_statistics :: "statistics_row option"

record club_with_players = club_row +
  incl_players :: "player_with_statistics list"

record player_with_relations = player_with_statistics +
  incl_club :: "club_row option"

definition statistics_of :: "database \<Rightarrow> int \<Rightarrow> statistics_row option" where
  "statistics_of db pid = find (\<lambda>s. statistics_playerId s = pid) (statistics db)"

definition include_statistics :: "database \<Rightarrow> player_row \<Rightarrow> player_with_statistics" where
  "include_statistics db p =
     \<lparr>player_id = player_id p, player_name = player_name p,
      player_nationality = player_nationality p, player_position = player_position p,
      player_clubId = player_clubId p,
      incl_statistics = statistics_of db (player_id p)\<rparr>"

definition include_players :: "database \<Rightarrow> club_row \<Rightarrow> club_with_players" where
  "include_players db c =
     \<lparr>club_id = club_id c, club_name = club_name c,
      incl_players = map (include_statistics db) (filter (\<lambda>p. player_clubId p = club_id c) (players db))\<rparr>"

definition include_relations :: "database \<Rightarrow> player_row \<Rightarrow> player_with_relations" where
  "include_relations db p =
     \<lparr>player_id = player_id p, player_name = player_name p,
      player_nationality = player_nationality p, player_position = player_position p,
      player_clubId = player_clubId p,
      incl_statistics = statistics_of db (player_id p),
      incl_club = find (\<lambda>c. club_id c = player_clubId p) (clubs db)\<rparr>"

subsection \<open>The Prisma client on the club table\<close>

text \<open>The errors of the client: the request errors P2002 (unique constraint), P2003 (foreign
  key constraint) and P2025 (the record to update or delete does not exist), and the
  \<^verbatim>\<open>PrismaClientValidationError\<close> for an argument that the query cannot take.\<close>

datatype prisma_error =
  UniqueConstraintFailed | ForeignKeyConstraintFailed | RecordNotFound | ValidationFailed

text \<open>The key columns are 64-bit integers. \<^verbatim>\<open>findUnique({ where: { id } })\<close> with an
  \<^verbatim>\<open>id\<close> outside that range is rejected by the client before the table is read.\<close>

definition fits_int64 :: "int \<Rightarrow> bool" where
  "fits_int64 i \<longleftrightarrow> - (2 ^ 63) \<le> i \<and> i < 2 ^ 63"

definition prisma_club_findUnique ::
  "database \<Rightarrow> int \<Rightarrow> prisma_error + club_with_players option" where
  "prisma_club_findUnique db i =
     (if \<not> fits_int64 i then Inl ValidationFailed
      else Inr (map_option (include_players db) (find (\<lambda>c. club_id c = i) (clubs db))))"

definition prisma_club_findFirst :: "database \<Rightarrow> js_string \<Rightarrow> club_with_players option" where
  "prisma_club_findFirst db n =
     map_option (include_players db) (find (\<lambda>c. club_name c = n) (clubs db))"

definition prisma_club_create ::
  "database \<Rightarrow> js_string \<Rightarrow> (prisma_error + club_with_players) \<times> database" where
  "prisma_club_create db n =
     (if find (\<lambda>c. club_name c = n) (clubs db) \<noteq> None then (Inl UniqueConstraintFailed, db)
      else
        let i = next_id (clubs_seq db) (map club_id (clubs db));
            c = \<lparr>club_id = i, club_name = n\<rparr>;
            db' = db\<lparr>clubs := clubs db @ [c], clubs_seq := i\<rparr>
        in (Inr (include_players db' c), db'))"

text \<open>\<^verbatim>\<open>data: { name: undefined }\<close> leaves the column as it is.\<close>

definition prisma_club_update ::
  "database \<Rightarrow> int \<Rightarrow> js_string option \<Rightarrow> (prisma_error + club_with_players) \<times> database" where
  "prisma_club_update db i data_name =
     (case find (\<lambda>c. club_id c = i) (clubs db) of
        None \<Rightarrow> (Inl RecordNotFound, db)
      | Some c \<Rightarrow>
          (case data_name of
             None \<Rightarrow> (Inr (include_players db c), db)
           | Some n \<Rightarrow>
               if find (\<lambda>c'. club_name c' = n \<and> club_id c' \<noteq> i) (clubs db) \<noteq> None
               then (Inl UniqueConstraintFailed, db)
               else
                 let db' = db\<lparr>clubs := map (\<lambda>c'. if club_id c' = i then c'\<lparr>club_name := n\<rparr> else c')
                                              (clubs db)\<rparr>
                 in (Inr (include_players db' (c\<lparr>club_name := n\<rparr>)), db')))"

text \<open>Deleting a club row deletes, by \<^verbatim>\<open>ON DELETE CASCADE\<close>, the players that reference it
  and the statistics rows that reference those players.\<close>

definition prisma_club_delete :: "database \<Rightarrow> int \<Rightarrow> prisma_error + database" where
  "prisma_club_delete db i =
     (if find (\<lambda>c. club_id c = i) (clubs db) = None then Inl RecordNotFound
      else
        let gone = map player_id (filter (\<lambda>p. player_clubId p = i) (players db))
        in Inr (db\<lparr>clubs := filter (\<lambda>c. club_id c \<noteq> i) (clubs db),
                   players := filter (\<lambda>p. player_clubId p \<noteq> i) (players db),
                   statistics := filter (\<lambda>s. statistics_playerId s \<notin> set gone) (statistics db)\<rparr>))"

subsection \<open>ClubsRepository\<close>

definition ClubsRepository_findAll :: "database \<Rightarrow> club_with_players list" where
  "ClubsRepository_findAll db = map (include_players db) (clubs db)"

text \<open>\<^verbatim>\<open>findById\<close> has no \<^verbatim>\<open>catch\<close>: an error of the client reaches the caller.\<close>

definition ClubsRepository_findById ::
  "database \<Rightarrow> int \<Rightarrow> prisma_error + club_with_players option" where
  "ClubsRepository_findById db i = prisma_club_findUnique db i"

definition ClubsRepository_findByName :: "database \<Rightarrow> js_string \<Rightarrow> club_with_players option" where
  "ClubsRepository_findByName db n = prisma_club_findFirst db n"

definition ClubsRepository_create ::
  "database \<Rightarrow> js_string \<Rightarrow> (prisma_error + club_with_players) \<times> database" where
  "ClubsRepository_create db n = prisma_club_create db n"

text \<open>\<^verbatim>\<open>update\<close> and \<^verbatim>\<open>delete\<close> catch every error of the client and return
  \<^verbatim>\<open>null\<close> and \<^verbatim>\<open>false\<close>, so that a rejected argument and an absent record give the
  same answer.\<close>

definition ClubsRepository_update ::
  "database \<Rightarrow> int \<Rightarrow> js_string option \<Rightarrow> club_with_players option \<times> database" where
  "ClubsRepository_update db i data_name =
     (case prisma_club_update db i data_name of
        (Inr c, db') \<Rightarrow> (Some c, db')
      | (Inl e, db') \<Rightarrow> (None, db'))"

definition ClubsRepository_delete :: "database \<Rightarrow> int \<Rightarrow> bool \<times> database" where
  "ClubsRepository_delete db i =
     (case prisma_club_delete db i of
        Inr db' \<Rightarrow> (True, db')
      | Inl e \<Rightarrow> (False, db))"

subsection \<open>ClubsService\<close>

text \<open>
  The services throw \<^verbatim>\<open>Error\<close> with a message; the messages are the constructors:
  \<^item> \<open>InvalidClubId\<close>: "ID do clube invalido" (an invalid argument);
  \<^item> \<open>ClubNameRequired\<close>: "Nome do clube e obrigatorio", \<open>ClubNameEmpty\<close>:
    "Nome do clube nao pode estar vazio" (validation errors);
  \<^item> \<open>ClubAlreadyExists\<close>: "Ja existe um clube com este nome", \<open>ClubHasPlayers\<close>:
    "Nao e possivel remover um clube que possui jogadores" (conflict errors);
  \<^item> \<open>ClubNotFound\<close>: "Clube nao encontrado" (not found);
  \<^item> \<open>FetchClubFailed\<close>: "Falha ao buscar clube";
  \<^item> \<open>InvalidPlayerId\<close>: "ID do jogador invalido" (an invalid argument);
  \<^item> \<open>PlayerNameRequired\<close>, \<open>PlayerNationalityRequired\<close>, \<open>PlayerPositionRequired\<close>,
    \<open>PlayerClubIdRequired\<close>, \<open>PlayerNameEmpty\<close>, \<open>PlayerNationalityEmpty\<close>,
    \<open>PlayerPositionEmpty\<close>: the messages of the field checks (validation errors);
  \<^item> \<open>StatisticsOutOfRange\<close>: "As estatisticas devem estar entre 0 e 100";
  \<^item> \<open>MinOverallOutOfRange\<close>, \<open>MaxOverallOutOfRange\<close>, \<open>MinOverallAboveMax\<close>: the
    messages of the filter checks (validation errors);
  \<^item> \<open>FetchPlayerStatisticsFailed\<close>: "Falha ao obter estatisticas dos jogadores";
  \<^item> \<open>Storage e\<close>: an error of the Prisma client that the service rethrows.

  \<^verbatim>\<open>updateClub\<close> and \<^verbatim>\<open>deleteClub\<close> rethrow what they catch, an error of
  \<^verbatim>\<open>findById\<close> included.
\<close>

datatype error =
    InvalidClubId
  | ClubNameRequired
  | ClubNameEmpty
  | ClubAlreadyExists
  | ClubNotFound
  | ClubHasPlayers
  | FetchClubFailed
  | InvalidPlayerId
  | PlayerNameRequired
  | PlayerNationalityRequired
  | PlayerPositionRequired
  | PlayerClubIdRequired
  | PlayerNameEmpty
  | PlayerNationalityEmpty
  | PlayerPositionEmpty
  | StatisticsOutOfRange
  | MinOverallOutOfRange
  | MaxOverallOutOfRange
  | MinOverallAboveMax
  | FetchPlayerStatisticsFailed
  | Storage prisma_error

text \<open>\<^verbatim>\<open>getClubById\<close> replaces every error by "Falha ao buscar clube"; an absent club
  is the value \<^verbatim>\<open>null\<close>.\<close>

definition getClubById :: "database \<Rightarrow> int \<Rightarrow> error + club_with_players option" where
  "getClubById db i =
     (if i = 0 \<or> i \<le> 0 then Inl FetchClubFailed
      else
        (case ClubsRepository_findById db i of
           Inl e \<Rightarrow> Inl FetchClubFailed
         | Inr r \<Rightarrow> Inr r))"

definition createClub ::
  "database \<Rightarrow> js_string \<Rightarrow> (error + club_with_players) \<times> database" where
  "createClub db data_name =
     (if data_name = [] \<or> trim data_name = [] then (Inl ClubNameRequired, db)
      else
        (case ClubsRepository_findByName db (trim data_name) of
           Some existingClub \<Rightarrow> (Inl ClubAlreadyExists, db)
         | None \<Rightarrow>
             (case ClubsRepository_create db (trim data_name) of
                (Inr c, db') \<Rightarrow> (Inr c, db')
              | (Inl e, db') \<Rightarrow> (Inl (Storage e), db'))))"

definition updateClub ::
  "database \<Rightarrow> int \<Rightarrow> js_string option \<Rightarrow> (error + club_with_players option) \<times> database" where
  "updateClub db i data_name =
     (if i = 0 \<or> i \<le> 0 then (Inl InvalidClubId, db)
      else if (case data_name of Some n \<Rightarrow> trim n = [] | None \<Rightarrow> False)
      then (Inl ClubNameEmpty, db)
      else
        (case ClubsRepository_findById db i of
           Inl e \<Rightarrow> (Inl (Storage e), db)
         | Inr None \<Rightarrow> (Inl ClubNotFound, db)
         | Inr (Some existingClub) \<Rightarrow>
             if (case data_name of
                   Some n \<Rightarrow> n \<noteq> [] \<and> n \<noteq> club_name existingClub \<and>
                              ClubsRepository_findByName db (trim n) \<noteq> None
                 | None \<Rightarrow> False)
             then (Inl ClubAlreadyExists, db)
             else
               (case ClubsRepository_update db i (map_option trim data_name) of
                  (r, db') \<Rightarrow> (Inr r, db'))))"

definition deleteClub :: "database \<Rightarrow> int \<Rightarrow> (error + bool) \<times> database" where
  "deleteClub db i =
     (if i = 0 \<or> i \<le> 0 then (Inl InvalidClubId, db)
      else
        (case ClubsRepository_findById db i of
           Inl e \<Rightarrow> (Inl (Storage e), db)
         | Inr None \<Rightarrow> (Inl ClubNotFound, db)
         | Inr (Some existingClub) \<Rightarrow>
             if length (incl_players existingClub) > 0 then (Inl ClubHasPlayers, db)
             else
               (case ClubsRepository_delete db i of
                  (r, db') \<Rightarrow> (Inr r, db'))))"

subsection \<open>The Prisma client on the player and statistics tables\<close>

record CreateStatisticsData =
  cs_overall :: int
  cs_pace :: int
  cs_shooting :: int
  cs_passing :: int
  cs_dribbling :: int
  cs_defending :: int
  cs_physical :: int

record CreatePlayerData =
  cp_name :: js_string
  cp_nationality :: js_string
  cp_position :: js_string
  cp_clubId :: int
  cp_statistics :: "CreateStatisticsData option"

text \<open>An optional property is \<open>None\<close> when it is \<^verbatim>\<open>undefined\<close>.\<close>

record UpdatePlayerData =
  up_name :: "js_string option"
  up_nationality :: "js_string option"
  up_position :: "js_string option"
  up_clubId :: "int option"

record UpdateStatisticsData =
  us_overall :: "int option"
  us_pace :: "int option"
  us_shooting :: "int option"
  us_passing :: "int option"
  us_dribbling :: "int option"
  us_defending :: "int option"
  us_physical :: "int option"

text \<open>\<^verbatim>\<open>player.create\<close> with a nested \<^verbatim>\<open>statistics: { create: ... }\<close> is one
  transaction: both rows are inserted or none. The club must exist (P2003).\<close>

definition prisma_player_create ::
  "database \<Rightarrow> CreatePlayerData \<Rightarrow> (prisma_error + player_with_relations) \<times> database" where
  "prisma_player_create db d =
     (if find (\<lambda>c. club_id c = cp_clubId d) (clubs db) = None
      then (Inl ForeignKeyConstraintFailed, db)
      else
        let pid = next_id (players_seq db) (map player_id (players db));
            p = \<lparr>player_id = pid, player_name = cp_name d, player_nationality = cp_nationality d,
                 player_position = cp_position d, player_clubId = cp_clubId d\<rparr>
        in
          (case cp_statistics d of
             None \<Rightarrow>
               let db' = db\<lparr>players := players db @ [p], players_seq := pid\<rparr>
               in (Inr (include_relations db' p), db')
           | Some st \<Rightarrow>
               if find (\<lambda>s. statistics_playerId s = pid) (statistics db) \<noteq> None
               then (Inl UniqueConstraintFailed, db)
               else
                 let sid = next_id (statistics_seq db) (map statistics_id (statistics db));
                     s = \<lparr>statistics_id = sid, overall = cs_overall st, pace = cs_pace st,
                          shooting = cs_shooting st, passing = cs_passing st,
                          dribbling = cs_dribbling st, defending = cs_defending st,
                          physical = cs_physical st, statistics_playerId = pid\<rparr>;
                     db' = db\<lparr>players := players db @ [p], players_seq := pid,
                              statistics := statistics db @ [s], statistics_seq := sid\<rparr>
                 in (Inr (include_relations db' p), db')))"

definition set_field :: "'a option \<Rightarrow> 'a \<Rightarrow> 'a" where
  "set_field new old = (case new of Some v \<Rightarrow> v | None \<Rightarrow> old)"

definition apply_player_update :: "UpdatePlayerData \<Rightarrow> player_row \<Rightarrow> player_row" where
  "apply_player_update d p =
     p\<lparr>player_name := set_field (up_name d) (player_name p),
       player_nationality := set_field (up_nationality d) (player_nationality p),
       player_position := set_field (up_position d) (player_position p),
       player_clubId := set_field (up_clubId d) (player_clubId p)\<rparr>"

definition prisma_player_update ::
  "database \<Rightarrow> int \<Rightarrow> UpdatePlayerData \<Rightarrow> (prisma_error + player_with_relations) \<times> database" where
  "prisma_player_update db i d =
     (case find (\<lambda>p. player_id p = i) (players db) of
        None \<Rightarrow> (Inl RecordNotFound, db)
      | Some p \<Rightarrow>
          if (case up_clubId d of
                Some c \<Rightarrow> find (\<lambda>c'. club_id c' = c) (clubs db) = None
              | None \<Rightarrow> False)
          then (Inl ForeignKeyConstraintFailed, db)
          else
            let db' = db\<lparr>players := map (\<lambda>p'. if player_id p' = i then apply_player_update d p' else p')
                                          (players db)\<rparr>
            in (Inr (include_relations db' (apply_player_update d p)), db'))"

definition apply_statistics_update :: "UpdateStatisticsData \<Rightarrow> statistics_row \<Rightarrow> statistics_row" where
  "apply_statistics_update d s =
     s\<lparr>overall := set_field (us_overall d) (overall s),
       pace := set_field (us_pace d) (pace s),
       shooting := set_field (us_shooting d) (shooting s),
       passing := set_field (us_passing d) (passing s),
       dribbling := set_field (us_dribbling d) (dribbling s),
       defending := set_field (us_defending d) (defending s),
       physical := set_field (us_physical d) (physical s)\<rparr>"

text \<open>\<^verbatim>\<open>statistics.update({ where: { playerId }, data })\<close>: \<^verbatim>\<open>playerId\<close> is the unique
  column of the statistics table.\<close>

definition prisma_statistics_update ::
  "database \<Rightarrow> int \<Rightarrow> UpdateStatisticsData \<Rightarrow> (prisma_error + statistics_row) \<times> database" where
  "prisma_statistics_update db playerId d =
     (case find (\<lambda>s. statistics_playerId s = playerId) (statistics db) of
        None \<Rightarrow> (Inl RecordNotFound, db)
      | Some s \<Rightarrow>
          (Inr (apply_statistics_update d s),
           db\<lparr>statistics := map (\<lambda>s'. if statistics_playerId s' = playerId
                                       then apply_statistics_update d s' else s')
                                (statistics db)\<rparr>))"

text \<open>The \<^verbatim>\<open>where\<close> argument of \<^verbatim>\<open>player.findMany\<close> as \<^verbatim>\<open>findWithFilters\<close> builds it:
  equality on three columns and, under \<^verbatim>\<open>statistics\<close>, bounds on \<^verbatim>\<open>overall\<close>. A filter on
  the optional relation \<^verbatim>\<open>statistics\<close> selects players that have a statistics row and whose
  row satisfies it.\<close>

record overall_filter =
  gte :: "int option"
  lte :: "int option"

record player_where =
  w_clubId :: "int option"
  w_position :: "js_string option"
  w_nationality :: "js_string option"
  w_statistics :: "overall_filter option"

definition holds_opt :: "'a option \<Rightarrow> ('a \<Rightarrow> bool) \<Rightarrow> bool" where
  "holds_opt c P = (case c of None \<Rightarrow> True | Some v \<Rightarrow> P v)"

definition player_matches :: "database \<Rightarrow> player_where \<Rightarrow> player_row \<Rightarrow> bool" where
  "player_matches db w p \<longleftrightarrow>
     holds_opt (w_clubId w) (\<lambda>c. player_clubId p = c) \<and>
     holds_opt (w_position w) (\<lambda>s. player_position p = s) \<and>
     holds_opt (w_nationality w) (\<lambda>s. player_nationality p = s) \<and>
     holds_opt (w_statistics w) (\<lambda>f.
        case statistics_of db (player_id p) of
          None \<Rightarrow> False
        | Some st \<Rightarrow> holds_opt (gte f) (\<lambda>lo. lo \<le> overall st) \<and>
                     holds_opt (lte f) (\<lambda>hi. overall st \<le> hi))"

definition prisma_player_findMany :: "database \<Rightarrow> player_where \<Rightarrow> player_with_relations list" where
  "prisma_player_findMany db w =
     map (include_relations db) (filter (player_matches db w) (players db))"

subsection \<open>PlayersRepository\<close>

definition PlayersRepository_findAll :: "database \<Rightarrow> player_with_relations list" where
  "PlayersRepository_findAll db = map (include_relations db) (players db)"

definition PlayersRepository_create ::
  "database \<Rightarrow> CreatePlayerData \<Rightarrow> (prisma_error + player_with_relations) \<times> database" where
  "PlayersRepository_create db d = prisma_player_create db d"

definition PlayersRepository_update ::
  "database \<Rightarrow> int \<Rightarrow> UpdatePlayerData \<Rightarrow> player_with_relations option \<times> database" where
  "PlayersRepository_update db i d =
     (case prisma_player_update db i d of
        (Inr p, db') \<Rightarrow> (Some p, db')
      | (Inl e, db') \<Rightarrow> (None, db'))"

definition PlayersRepository_updateStatistics ::
  "database \<Rightarrow> int \<Rightarrow> UpdateStatisticsData \<Rightarrow> statistics_row option \<times> database" where
  "PlayersRepository_updateStatistics db playerId d =
     (case prisma_statistics_update db playerId d of
        (Inr s, db') \<Rightarrow> (Some s, db')
      | (Inl e, db') \<Rightarrow> (None, db'))"

text \<open>\<^verbatim>\<open>findWithFilters\<close> tests each filter for truthiness: \<^verbatim>\<open>undefined\<close>, the number
  \<^verbatim>\<open>0\<close> and the empty string do not pass \<^verbatim>\<open>if (x)\<close>.\<close>

record PlayerFilters =
  f_clubId :: "int option"
  f_position :: "js_string option"
  f_nationality :: "js_string option"
  f_minOverall :: "int option"
  f_maxOverall :: "int option"

definition truthy_number :: "int option \<Rightarrow> int option" where
  "truthy_number x = (case x of Some n \<Rightarrow> if n = 0 then None else Some n | None \<Rightarrow> None)"

definition truthy_string :: "js_string option \<Rightarrow> js_string option" where
  "truthy_string x = (case x of Some s \<Rightarrow> if s = [] then None else Some s | None \<Rightarrow> None)"

definition build_where :: "PlayerFilters \<Rightarrow> player_where" where
  "build_where filters =
     \<lparr>w_clubId = truthy_number (f_clubId filters),
      w_position = truthy_string (f_position filters),
      w_nationality = truthy_string (f_nationality filters),
      w_statistics =
        (if truthy_number (f_minOverall filters) \<noteq> None \<or> truthy_number (f_maxOverall filters) \<noteq> None
         then Some \<lparr>gte = truthy_number (f_minOverall filters),
                    lte = truthy_number (f_maxOverall filters)\<rparr>
         else None)\<rparr>"

definition PlayersRepository_findWithFilters :: "database \<Rightarrow> PlayerFilters \<Rightarrow> player_with_relations list" where
  "PlayersRepository_findWithFilters db filters = prisma_player_findMany db (build_where filters)"

subsection \<open>PlayersService\<close>

definition validRange :: "int \<Rightarrow> bool" where
  "validRange v \<longleftrightarrow> v \<ge> 0 \<and> v \<le> 100"

definition getAllPlayers :: "database \<Rightarrow> error + player_with_relations list" where
  "getAllPlayers db = Inr (PlayersRepository_findAll db)"

definition createPlayer ::
  "database \<Rightarrow> CreatePlayerData \<Rightarrow> (error + player_with_relations) \<times> database" where
  "createPlayer db d =
     (if cp_name d = [] \<or> trim (cp_name d) = [] then (Inl PlayerNameRequired, db)
      else if cp_nationality d = [] \<or> trim (cp_nationality d) = []
      then (Inl PlayerNationalityRequired, db)
      else if cp_position d = [] \<or> trim (cp_position d) = [] then (Inl PlayerPositionRequired, db)
      else if cp_clubId d = 0 \<or> cp_clubId d \<le> 0 then (Inl PlayerClubIdRequired, db)
      else if (case cp_statistics d of
                 Some stats \<Rightarrow>
                   \<not> validRange (cs_overall stats) \<or> \<not> validRange (cs_pace stats) \<or>
                   \<not> validRange (cs_shooting stats) \<or> \<not> validRange (cs_passing stats) \<or>
                   \<not> validRange (cs_dribbling stats) \<or> \<not> validRange (cs_defending stats) \<or>
                   \<not> validRange (cs_physical stats)
               | None \<Rightarrow> False)
      then (Inl StatisticsOutOfRange, db)
      else
        (case PlayersRepository_create db
                (d\<lparr>cp_name := trim (cp_name d), cp_nationality := trim (cp_nationality d),
                   cp_position := trim (cp_position d)\<rparr>) of
           (Inr p, db') \<Rightarrow> (Inr p, db')
         | (Inl e, db') \<Rightarrow> (Inl (Storage e), db')))"

definition is_blank :: "js_string option \<Rightarrow> bool" where
  "is_blank x = (case x of Some s \<Rightarrow> trim s = [] | None \<Rightarrow> False)"

definition updatePlayer ::
  "database \<Rightarrow> int \<Rightarrow> UpdatePlayerData \<Rightarrow> (error + player_with_relations option) \<times> database" where
  "updatePlayer db i d =
     (if i = 0 \<or> i \<le> 0 then (Inl InvalidPlayerId, db)
      else if is_blank (up_name d) then (Inl PlayerNameEmpty, db)
      else if is_blank (up_nationality d) then (Inl PlayerNationalityEmpty, db)
      else if is_blank (up_position d) then (Inl PlayerPositionEmpty, db)
      else
        (case PlayersRepository_update db i
                (d\<lparr>up_name := map_option trim (up_name d),
                   up_nationality := map_option trim (up_nationality d),
                   up_position := map_option trim (up_position d)\<rparr>) of
           (r, db') \<Rightarrow> (Inr r, db')))"

text \<open>\<^verbatim>\<open>Object.values(data).filter(val => val !== undefined)\<close>: the supplied scores.\<close>

definition statsToValidate :: "UpdateStatisticsData \<Rightarrow> int list" where
  "statsToValidate d =
     List.map_filter (\<lambda>v. v)
       [us_overall d, us_pace d, us_shooting d, us_passing d, us_dribbling d, us_defending d,
        us_physical d]"

definition updatePlayerStatistics ::
  "database \<Rightarrow> int \<Rightarrow> UpdateStatisticsData \<Rightarrow> (error + bool) \<times> database" where
  "updatePlayerStatistics db playerId d =
     (if playerId = 0 \<or> playerId \<le> 0 then (Inl InvalidPlayerId, db)
      else if find (\<lambda>v. \<not> validRange v) (statsToValidate d) \<noteq> None
      then (Inl StatisticsOutOfRange, db)
      else
        (case PlayersRepository_updateStatistics db playerId d of
           (r, db') \<Rightarrow> (Inr (r \<noteq> None), db')))"

definition getPlayersWithFilters ::
  "database \<Rightarrow> PlayerFilters \<Rightarrow> error + player_with_relations list" where
  "getPlayersWithFilters db filters =
     (if (case f_clubId filters of Some c \<Rightarrow> c \<le> 0 | None \<Rightarrow> False) then Inl InvalidClubId
      else if (case f_minOverall filters of Some lo \<Rightarrow> lo < 0 \<or> lo > 100 | None \<Rightarrow> False)
      then Inl MinOverallOutOfRange
      else if (case f_maxOverall filters of Some hi \<Rightarrow> hi < 0 \<or> hi > 100 | None \<Rightarrow> False)
      then Inl MaxOverallOutOfRange
      else if (case (f_minOverall filters, f_maxOverall filters) of
                 (Some lo, Some hi) \<Rightarrow> lo > hi
               | _ \<Rightarrow> False)
      then Inl MinOverallAboveMax
      else Inr (PlayersRepository_findWithFilters db filters))"

subsection \<open>Double-precision numbers\<close>

text \<open>
  A JavaScript number is an IEEE 754 double. The finite doubles are modelled as the rationals
  they denote, and every arithmetic operation rounds its exact result to the nearest double,
  ties to the even significand: the significand has 53 bits, so a positive \<open>x\<close> with
  \<open>2 ^ e \<le> x < 2 ^ (e + 1)\<close> is rounded to a multiple of \<open>2 ^ (e - 52)\<close>. The sign of
  zero is not represented, and the exponent is not bounded: the numbers of this service are
  sums and quotients of 64-bit integers over arrays of fewer than \<open>2 ^ 32\<close> elements, which
  neither overflow nor underflow. A quotient is taken only by a divisor that is not zero.
  \<^verbatim>\<open>Math.round\<close> is exact: the nearest integer, a tie going up.
\<close>

definition pow2 :: "int \<Rightarrow> rat" where
  "pow2 e = (if 0 \<le> e then 2 ^ nat e else 1 / 2 ^ nat (- e))"


definition round_even :: "rat \<Rightarrow> int" where
  "round_even y =
     (let r = \<lfloor>y\<rfloor>; f = y - of_int r
      in if f < 1 / 2 then r else if 1 / 2 < f then r + 1 else if even r then r else r + 1)"








subsection \<open>The aggregate of \<^verbatim>\<open>getPlayersStatistics\<close>\<close>

text \<open>
  The service counts positions and nationalities in a plain object used as a dictionary:
  \<^verbatim>\<open>acc[key] = (acc[key] || 0) + 1\<close>, starting from \<^verbatim>\<open>{}\<close>. The object is the list of
  its own properties in the order of their creation; the value of a property is a number or a
  string.

  A key that the object does not own is looked up in \<^verbatim>\<open>Object.prototype\<close>. For the names
  of its methods the value read is a function, which is truthy, and \<^verbatim>\<open>+ 1\<close> appends "1" to
  the source text of the function, "function toString() { [native code] }" for
  \<^verbatim>\<open>toString\<close>; the string becomes an own property, and every later occurrence of the key
  appends another "1". \<^verbatim>\<open>constructor\<close> is the function \<^verbatim>\<open>Object\<close>. For \<^verbatim>\<open>__proto__\<close>
  the assignment of a string is ignored, and no property is created.
\<close>

datatype js_count = Count nat | Text js_string

type_synonym counts = "(js_string \<times> js_count) list"








text \<open>
  \<^verbatim>\<open>Object.entries\<close> lists the own properties in the order of ECMAScript: first the keys
  that are array indices (the canonical decimal numerals of 0 .. 4294967294) in ascending
  numeric order, then the other string keys in the order of their creation.
\<close>

definition digit :: "16 word \<Rightarrow> int option" where
  "digit c = (if 48 \<le> c \<and> c \<le> 57 then Some (uint c - 48) else None)"

fun decimal :: "int \<Rightarrow> js_string \<Rightarrow> int option" where
  "decimal acc [] = Some acc"
| "decimal acc (c # cs) = (case digit c of None \<Rightarrow> None | Some d \<Rightarrow> decimal (10 * acc + d) cs)"

definition array_index :: "js_string \<Rightarrow> int option" where
  "array_index s =
     (case s of
        [] \<Rightarrow> None
      | c # cs \<Rightarrow>
          if c = 48 \<and> cs \<noteq> [] then None
          else (case decimal 0 s of
                  Some n \<Rightarrow> if n \<le> 4294967294 then Some n else None
                | None \<Rightarrow> None))"

definition is_array_index :: "js_string \<Rightarrow> bool" where
  "is_array_index s \<longleftrightarrow> array_index s \<noteq> None"

definition index_of :: "js_string \<Rightarrow> int" where
  "index_of s = (case array_index s of Some n \<Rightarrow> n | None \<Rightarrow> 0)"








subsection \<open>Inputs and states used in the statements\<close>

text \<open>The scores that a partial statistics update supplies.\<close>

definition supplied :: "UpdateStatisticsData \<Rightarrow> int set" where
  "supplied d = {v. Some v \<in> {us_overall d, us_pace d, us_shooting d, us_passing d, us_dribbling d,
                    us_defending d, us_physical d}}"

text \<open>A statistics payload of \<^verbatim>\<open>createPlayer\<close> with a score outside 0..100.\<close>

definition stats_out_of_range :: "CreatePlayerData \<Rightarrow> bool" where
  "stats_out_of_range d \<longleftrightarrow>
     (case cp_statistics d of
        None \<Rightarrow> False
      | Some st \<Rightarrow> \<exists>v\<in>{cs_overall st, cs_pace st, cs_shooting st, cs_passing st, cs_dribbling st,
                        cs_defending st, cs_physical st}. v < 0 \<or> 100 < v)"

text \<open>The update that supplies no score, the update that supplies only \<^verbatim>\<open>overall\<close>, the
  player update that supplies only \<^verbatim>\<open>clubId\<close>, and the filter that supplies only
  \<^verbatim>\<open>maxOverall\<close>.\<close>

definition no_scores :: UpdateStatisticsData where
  "no_scores = \<lparr>us_overall = None, us_pace = None, us_shooting = None, us_passing = None,
                us_dribbling = None, us_defending = None, us_physical = None\<rparr>"

definition only_overall :: "int \<Rightarrow> UpdateStatisticsData" where
  "only_overall v = no_scores\<lparr>us_overall := Some v\<rparr>"

definition only_clubId :: "int \<Rightarrow> UpdatePlayerData" where
  "only_clubId c = \<lparr>up_name = None, up_nationality = None, up_position = None, up_clubId = Some c\<rparr>"

definition only_maxOverall :: "int \<Rightarrow> PlayerFilters" where
  "only_maxOverall hi =
     \<lparr>f_clubId = None, f_position = None, f_nationality = None, f_minOverall = None,
      f_maxOverall = Some hi\<rparr>"

text \<open>Two states: one club without players; and the scenario of the specification, the
  club "Real Madrid" with the player "Vinicius Jr" and his statistics.\<close>

definition db_foo :: database where
  "db_foo = \<lparr>clubs = [\<lparr>club_id = 1, club_name = js ''Foo''\<rparr>], players = [], statistics = [],
             clubs_seq = 1, players_seq = 0, statistics_seq = 0\<rparr>"

definition db_vini :: database where
  "db_vini =
     \<lparr>clubs = [\<lparr>club_id = 1, club_name = js ''Real Madrid''\<rparr>],
      players = [\<lparr>player_id = 1, player_name = js ''Vinicius Jr'', player_nationality = js ''Brasil'',
                  player_position = js ''LW'', player_clubId = 1\<rparr>],
      statistics = [\<lparr>statistics_id = 1, overall = 88, pace = 95, shooting = 79, passing = 74,
                     dribbling = 90, defending = 29, physical = 64, statistics_playerId = 1\<rparr>],
      clubs_seq = 1, players_seq = 1, statistics_seq = 1\<rparr>"

definition vini_at_club_9 :: CreatePlayerData where
  "vini_at_club_9 =
     \<lparr>cp_name = js ''Vinicius Jr'', cp_nationality = js ''Brasil'', cp_position = js ''LW'',
      cp_clubId = 9, cp_statistics = None\<rparr>"

text \<open>
  The notions in which the aggregate is stated. The distinct values of a list in the order of
  their first occurrence; the same values in the order in which the grouping object lists them;
  a list of values with the number of occurrences of each; the first \<open>n\<close> entries by
  descending count, ties in the order given; the entries as JavaScript values; the exact mean
  of a list of scores; a number rounded to two decimal places, a tie going up; the statistics
  rows of the players that have one, in the order of the players; the range of the stored
  overall scores, which the service keeps.
\<close>

definition first_encounter :: "'a list \<Rightarrow> 'a list" where
  "first_encounter xs = rev (remdups (rev xs))"

definition property_order :: "js_string list \<Rightarrow> js_string list" where
  "property_order ks =
     sort_key index_of (filter is_array_index (first_encounter ks)) @
     filter (\<lambda>k. \<not> is_array_index k) (first_encounter ks)"



definition as_numbers :: "(js_string \<times> nat) list \<Rightarrow> counts" where
  "as_numbers entries = map (\<lambda>(k, c). (k, Count c)) entries"




definition overall_in_range :: "database \<Rightarrow> bool" where
  "overall_in_range db \<longleftrightarrow> (\<forall>s\<in>set (statistics db). 0 \<le> overall s \<and> overall s \<le> 100)"







subsection \<open>Key allocation and lookups\<close>

lemma fold_max_ge_init: "(s::int) \<le> fold max ids s"
  by (induction ids arbitrary: s) (auto intro: order_trans[OF max.cobounded2])

lemma fold_max_ge_elem: "(x::int) \<in> set ids \<Longrightarrow> x \<le> fold max ids s"
proof (induction ids arbitrary: s)
  case Nil
  then show ?case by simp
next
  case (Cons a ids)
  show ?case
  proof (cases "x = a")
    case True
    have "a \<le> max a s" by simp
    also have "\<dots> \<le> fold max ids (max a s)" by (rule fold_max_ge_init)
    finally show ?thesis using True by simp
  next
    case False
    with Cons show ?thesis by simp
  qed
qed

lemma next_id_fresh: "next_id s ids \<notin> set ids"
proof
  assume "next_id s ids \<in> set ids"
  then have "next_id s ids \<le> fold max ids s" by (rule fold_max_ge_elem)
  then show False by (simp add: next_id_def)
qed

lemma find_club_id_None: "find (\<lambda>c. club_id c = i) cs = None \<longleftrightarrow> i \<notin> club_id ` set cs"
  by (auto simp: find_None_iff)

lemma find_club_name_None: "find (\<lambda>c. club_name c = n) cs = None \<longleftrightarrow> n \<notin> club_name ` set cs"
  by (auto simp: find_None_iff)

lemma find_club_id_Some: "find (\<lambda>c. club_id c = i) cs = Some c \<Longrightarrow> club_id c = i \<and> c \<in> set cs"
  by (auto simp: find_Some_iff)

lemma ClubsRepository_findById_range:
  "\<not> fits_int64 i \<Longrightarrow> ClubsRepository_findById db i = Inl ValidationFailed"
  by (simp add: ClubsRepository_findById_def prisma_club_findUnique_def)

lemma ClubsRepository_findById_None:
  "fits_int64 i \<Longrightarrow>
     ClubsRepository_findById db i = Inr None \<longleftrightarrow> i \<notin> club_id ` set (clubs db)"
  by (simp add: ClubsRepository_findById_def prisma_club_findUnique_def find_club_id_None)

lemma ClubsRepository_findById_cases:
  assumes "fits_int64 i"
  obtains "ClubsRepository_findById db i = Inr None" and "i \<notin> club_id ` set (clubs db)"
  | c where "ClubsRepository_findById db i = Inr (Some c)" and "i \<in> club_id ` set (clubs db)"
  using assms ClubsRepository_findById_None[OF assms, of db]
  by (cases "find (\<lambda>c. club_id c = i) (clubs db)")
     (auto simp: ClubsRepository_findById_def prisma_club_findUnique_def)

lemma ClubsRepository_findByName_None: "ClubsRepository_findByName db n = None \<longleftrightarrow> n \<notin> club_name ` set (clubs db)"
  by (simp add: ClubsRepository_findByName_def prisma_club_findFirst_def find_club_name_None)

lemma ClubsRepository_findById_Some:
  "ClubsRepository_findById db i = Inr (Some c) \<Longrightarrow>
     club_id c = i \<and>
     incl_players c = map (include_statistics db) (filter (\<lambda>p. player_clubId p = i) (players db))"
  by (auto simp: ClubsRepository_findById_def prisma_club_findUnique_def include_players_def
           split: if_splits dest: find_club_id_Some)

lemma no_players_filter:
  "\<not> (\<exists>p\<in>set ps. player_clubId p = i) \<Longrightarrow> filter (\<lambda>p. player_clubId p \<noteq> i) ps = ps"
  by (induction ps) auto

lemma no_players_filter_empty:
  "\<not> (\<exists>p\<in>set ps. player_clubId p = i) \<Longrightarrow> filter (\<lambda>p. player_clubId p = i) ps = []"
  by (induction ps) auto

lemma trim_nonempty: "trim s \<noteq> [] \<Longrightarrow> s \<noteq> []"
  by (auto simp: trim_def)

lemma schema_ok_FK:
  "schema_ok db \<Longrightarrow> p \<in> set (players db) \<Longrightarrow> player_clubId p \<in> club_id ` set (clubs db)"
  by (auto simp: schema_ok_def list_all_iff)

lemma new_club_no_players:
  assumes "schema_ok db"
  shows "filter (\<lambda>p. player_clubId p = next_id (clubs_seq db) (map club_id (clubs db))) (players db) = []"
proof -
  have "next_id (clubs_seq db) (map club_id (clubs db)) \<notin> set (map club_id (clubs db))"
    by (rule next_id_fresh)
  moreover have "player_clubId p \<in> set (map club_id (clubs db))" if "p \<in> set (players db)" for p
    using schema_ok_FK[OF assms that] by simp
  ultimately show ?thesis
    unfolding filter_empty_conv by metis
qed

lemma schema_ok_empty: "schema_ok empty_database"
  by (simp add: schema_ok_def empty_database_def)

lemma schema_ok_db_foo: "schema_ok db_foo"
  by (simp add: schema_ok_def db_foo_def)

lemma schema_ok_db_vini: "schema_ok db_vini"
  by (simp add: schema_ok_def db_vini_def)

subsection \<open>Deleting a club\<close>

text \<open>
  Claim C1, as amended. For every state and every identifier \<open>i\<close>: when \<open>i \<le> 0\<close>,
  \<^verbatim>\<open>deleteClub\<close> fails with "ID do clube invalido" (an invalid argument), and when
  \<open>2 ^ 63 \<le> i\<close> it fails with the validation error of the storage client; in both cases
  the state is unchanged, whatever it holds. When \<open>0 < i < 2 ^ 63\<close>: if a club with that
  identifier exists and some player references it, the call fails with "Nao e possivel remover
  um clube que possui jogadores" (a conflict) and the state is the one before the call, so
  nothing reached storage; if the club exists and no player references it, the call returns
  \<^verbatim>\<open>true\<close>, the state differs only by the removed club row, and \<^verbatim>\<open>getClubById\<close> on the
  new state returns \<^verbatim>\<open>null\<close>; if no club has that identifier, the call fails with "Clube nao
  encontrado" (not found) and the state is unchanged.
\<close>

theorem deleteClub_cases:
  "(i \<le> 0 \<longrightarrow> deleteClub db i = (Inl InvalidClubId, db)) \<and>
   (2 ^ 63 \<le> i \<longrightarrow> deleteClub db i = (Inl (Storage ValidationFailed), db)) \<and>
   (0 < i \<and> i < 2 ^ 63 \<and> i \<in> club_id ` set (clubs db) \<and>
    (\<exists>p\<in>set (players db). player_clubId p = i) \<longrightarrow>
      deleteClub db i = (Inl ClubHasPlayers, db)) \<and>
   (0 < i \<and> i < 2 ^ 63 \<and> i \<in> club_id ` set (clubs db) \<and>
    \<not> (\<exists>p\<in>set (players db). player_clubId p = i) \<longrightarrow>
      deleteClub db i = (Inr True, db\<lparr>clubs := filter (\<lambda>c. club_id c \<noteq> i) (clubs db)\<rparr>) \<and>
      getClubById (snd (deleteClub db i)) i = Inr None) \<and>
   (0 < i \<and> i < 2 ^ 63 \<and> i \<notin> club_id ` set (clubs db) \<longrightarrow>
      deleteClub db i = (Inl ClubNotFound, db))"
proof (intro conjI impI)
  assume "i \<le> 0"
  then show "deleteClub db i = (Inl InvalidClubId, db)"
    by (simp add: deleteClub_def)
next
  assume a: "2 ^ 63 \<le> i"
  then have "\<not> fits_int64 i" by (simp add: fits_int64_def)
  then have "ClubsRepository_findById db i = Inl ValidationFailed"
    by (rule ClubsRepository_findById_range)
  moreover from a have "0 < i" by (rule less_le_trans[rotated]) simp
  ultimately show "deleteClub db i = (Inl (Storage ValidationFailed), db)"
    by (simp add: deleteClub_def)
next
  assume a: "0 < i \<and> i < 2 ^ 63 \<and> i \<in> club_id ` set (clubs db) \<and>
             (\<exists>p\<in>set (players db). player_clubId p = i)"
  then have r: "fits_int64 i" by (simp add: fits_int64_def)
  from a obtain c where c: "ClubsRepository_findById db i = Inr (Some c)"
    by (auto intro: ClubsRepository_findById_cases[OF r, of db])
  from a have "filter (\<lambda>p. player_clubId p = i) (players db) \<noteq> []"
    by (auto simp: filter_empty_conv)
  with ClubsRepository_findById_Some[OF c] have "incl_players c \<noteq> []" by simp
  with a c show "deleteClub db i = (Inl ClubHasPlayers, db)"
    by (simp add: deleteClub_def)
next
  assume a: "0 < i \<and> i < 2 ^ 63 \<and> i \<in> club_id ` set (clubs db) \<and>
             \<not> (\<exists>p\<in>set (players db). player_clubId p = i)"
  then have r: "fits_int64 i" by (simp add: fits_int64_def)
  from a obtain c where c: "ClubsRepository_findById db i = Inr (Some c)"
    by (auto intro: ClubsRepository_findById_cases[OF r, of db])
  from a have e: "filter (\<lambda>p. player_clubId p = i) (players db) = []"
    and k: "filter (\<lambda>p. player_clubId p \<noteq> i) (players db) = players db"
    by (simp_all add: no_players_filter no_players_filter_empty)
  from e ClubsRepository_findById_Some[OF c] have np: "incl_players c = []" by simp
  from a have ex: "find (\<lambda>c. club_id c = i) (clubs db) \<noteq> None"
    by (simp add: find_club_id_None)
  let ?db' = "db\<lparr>clubs := filter (\<lambda>c. club_id c \<noteq> i) (clubs db)\<rparr>"
  have del: "ClubsRepository_delete db i = (True, ?db')"
    using ex e k by (simp add: ClubsRepository_delete_def prisma_club_delete_def)
  show d: "deleteClub db i = (Inr True, ?db')"
    using a c np del by (simp add: deleteClub_def)
  have "i \<notin> club_id ` set (clubs ?db')" by auto
  then have "ClubsRepository_findById ?db' i = Inr None"
    using ClubsRepository_findById_None[OF r, of ?db'] by blast
  then show "getClubById (snd (deleteClub db i)) i = Inr None"
    using a by (simp add: d getClubById_def)
next
  assume a: "0 < i \<and> i < 2 ^ 63 \<and> i \<notin> club_id ` set (clubs db)"
  then have r: "fits_int64 i" by (simp add: fits_int64_def)
  from a have "ClubsRepository_findById db i = Inr None"
    using ClubsRepository_findById_None[OF r, of db] by blast
  with a show "deleteClub db i = (Inl ClubNotFound, db)"
    by (simp add: deleteClub_def)
qed

text \<open>The five cases of C1 at concrete states.\<close>

theorem deleteClub_cases_witness:
  "deleteClub db_vini 0 = (Inl InvalidClubId, db_vini) \<and>
   deleteClub db_vini (2 ^ 63) = (Inl (Storage ValidationFailed), db_vini) \<and>
   deleteClub db_vini 1 = (Inl ClubHasPlayers, db_vini) \<and>
   deleteClub db_foo 1 = (Inr True, db_foo\<lparr>clubs := []\<rparr>) \<and>
   getClubById (db_foo\<lparr>clubs := []\<rparr>) 1 = Inr None \<and>
   deleteClub db_foo 2 = (Inl ClubNotFound, db_foo)"
proof -
  have a: "(0::int) < 1 \<and> (1::int) < 2 ^ 63 \<and> 1 \<in> club_id ` set (clubs db_vini) \<and>
           (\<exists>p\<in>set (players db_vini). player_clubId p = 1)"
    by (simp add: db_vini_def)
  have b: "(0::int) < 1 \<and> (1::int) < 2 ^ 63 \<and> 1 \<in> club_id ` set (clubs db_foo) \<and>
           \<not> (\<exists>p\<in>set (players db_foo). player_clubId p = 1)"
    by (simp add: db_foo_def)
  have c: "(0::int) < 2 \<and> (2::int) < 2 ^ 63 \<and> 2 \<notin> club_id ` set (clubs db_foo)"
    by (simp add: db_foo_def)
  have f: "filter (\<lambda>c. club_id c \<noteq> 1) (clubs db_foo) = []"
    by (simp add: db_foo_def)
  from deleteClub_cases[of 0 db_vini] have "deleteClub db_vini 0 = (Inl InvalidClubId, db_vini)"
    by simp
  moreover from deleteClub_cases[of "2 ^ 63" db_vini]
  have "deleteClub db_vini (2 ^ 63) = (Inl (Storage ValidationFailed), db_vini)"
    by simp
  moreover from deleteClub_cases[of 1 db_vini] a
  have "deleteClub db_vini 1 = (Inl ClubHasPlayers, db_vini)" by blast
  moreover from deleteClub_cases[of 1 db_foo] b f
  have "deleteClub db_foo 1 = (Inr True, db_foo\<lparr>clubs := []\<rparr>) \<and>
        getClubById (db_foo\<lparr>clubs := []\<rparr>) 1 = Inr None" by auto
  moreover from deleteClub_cases[of 2 db_foo] c
  have "deleteClub db_foo 2 = (Inl ClubNotFound, db_foo)" by blast
  ultimately show ?thesis by blast
qed

text \<open>
  Claim C1 as stated fails at two identifiers that no club has. At 0, \<^verbatim>\<open>deleteClub\<close> fails
  with the invalid-identifier error; at \<open>2 ^ 63\<close>, a positive integer, \<^verbatim>\<open>findById\<close> throws
  the validation error of the client and \<^verbatim>\<open>deleteClub\<close> rethrows it. Neither is "Clube nao
  encontrado".
\<close>

theorem deleteClub_absent_counterexample:
  "0 \<notin> club_id ` set (clubs empty_database) \<and>
   fst (deleteClub empty_database 0) = Inl InvalidClubId \<and>
   fst (deleteClub empty_database 0) \<noteq> Inl ClubNotFound \<and>
   2 ^ 63 \<notin> club_id ` set (clubs empty_database) \<and>
   fst (deleteClub empty_database (2 ^ 63)) = Inl (Storage ValidationFailed) \<and>
   fst (deleteClub empty_database (2 ^ 63)) \<noteq> Inl ClubNotFound"
  by (simp add: deleteClub_def empty_database_def ClubsRepository_findById_def
      prisma_club_findUnique_def fits_int64_def)

subsection \<open>Creating a club\<close>

text \<open>
  Claim C2. For every state and every name: \<^verbatim>\<open>createClub\<close> fails with "Nome do clube e
  obrigatorio" (a validation error) when the name is empty after trimming; when a club with the
  trimmed name exists it fails with "Ja existe um clube com este nome" (a conflict) and the state
  is unchanged; otherwise, in a state that satisfies the constraints of the schema, it appends one
  club row with a fresh identifier and the trimmed name, leaves players and statistics as they
  are, and returns that club with an empty player list; every later \<^verbatim>\<open>createClub\<close> with a
  name that trims to the same string fails with the conflict error.
\<close>

theorem createClub_cases:
  "(trim n = [] \<longrightarrow> createClub db n = (Inl ClubNameRequired, db)) \<and>
   (trim n \<noteq> [] \<and> trim n \<in> club_name ` set (clubs db) \<longrightarrow>
      createClub db n = (Inl ClubAlreadyExists, db)) \<and>
   (trim n \<noteq> [] \<and> trim n \<notin> club_name ` set (clubs db) \<and> schema_ok db \<longrightarrow>
      (\<exists>c db'. createClub db n = (Inr c, db') \<and>
          club_name c = trim n \<and> incl_players c = [] \<and>
          club_id c \<notin> club_id ` set (clubs db) \<and>
          clubs db' = clubs db @ [\<lparr>club_id = club_id c, club_name = trim n\<rparr>] \<and>
          players db' = players db \<and> statistics db' = statistics db \<and>
          (\<forall>n'. trim n' = trim n \<longrightarrow> createClub db' n' = (Inl ClubAlreadyExists, db'))))"
proof (intro conjI impI)
  assume "trim n = []"
  then show "createClub db n = (Inl ClubNameRequired, db)"
    by (simp add: createClub_def)
next
  assume a: "trim n \<noteq> [] \<and> trim n \<in> club_name ` set (clubs db)"
  then have "n \<noteq> []" using trim_nonempty[of n] by simp
  moreover from a obtain c where "ClubsRepository_findByName db (trim n) = Some c"
    using ClubsRepository_findByName_None[of db "trim n"] by auto
  ultimately show "createClub db n = (Inl ClubAlreadyExists, db)"
    using a by (simp add: createClub_def)
next
  assume a: "trim n \<noteq> [] \<and> trim n \<notin> club_name ` set (clubs db) \<and> schema_ok db"
  define i where "i = next_id (clubs_seq db) (map club_id (clubs db))"
  define db' where "db' = db\<lparr>clubs := clubs db @ [\<lparr>club_id = i, club_name = trim n\<rparr>], clubs_seq := i\<rparr>"
  define c where "c = include_players db' \<lparr>club_id = i, club_name = trim n\<rparr>"
  from a have ne: "n \<noteq> []" using trim_nonempty[of n] by simp
  from a have none: "ClubsRepository_findByName db (trim n) = None"
    by (simp add: ClubsRepository_findByName_None)
  from a have fnone: "find (\<lambda>c. club_name c = trim n) (clubs db) = None"
    by (simp add: find_club_name_None)
  have cr: "ClubsRepository_create db (trim n) = (Inr c, db')"
    using fnone by (simp add: ClubsRepository_create_def prisma_club_create_def Let_def
        c_def db'_def i_def)
  have r: "createClub db n = (Inr c, db')"
    using a ne none cr by (simp add: createClub_def)
  have fresh: "i \<notin> club_id ` set (clubs db)"
    using next_id_fresh[of "clubs_seq db" "map club_id (clubs db)"] by (simp add: i_def)
  have nop: "incl_players c = []"
    using new_club_no_players[of db] a by (simp add: c_def include_players_def db'_def i_def)
  have again: "createClub db' n' = (Inl ClubAlreadyExists, db')" if t: "trim n' = trim n" for n'
  proof -
    from t a have "n' \<noteq> []" using trim_nonempty[of n'] by simp
    moreover have "trim n \<in> club_name ` set (clubs db')" by (simp add: db'_def)
    then obtain c' where "ClubsRepository_findByName db' (trim n) = Some c'"
      using ClubsRepository_findByName_None[of db' "trim n"] by auto
    ultimately show ?thesis using a t by (simp add: createClub_def)
  qed
  show "\<exists>c db'. createClub db n = (Inr c, db') \<and>
          club_name c = trim n \<and> incl_players c = [] \<and>
          club_id c \<notin> club_id ` set (clubs db) \<and>
          clubs db' = clubs db @ [\<lparr>club_id = club_id c, club_name = trim n\<rparr>] \<and>
          players db' = players db \<and> statistics db' = statistics db \<and>
          (\<forall>n'. trim n' = trim n \<longrightarrow> createClub db' n' = (Inl ClubAlreadyExists, db'))"
  proof (intro exI conjI)
    show "createClub db n = (Inr c, db')" by (rule r)
    show "club_name c = trim n" by (simp add: c_def include_players_def)
    show "incl_players c = []" by (rule nop)
    show "club_id c \<notin> club_id ` set (clubs db)" using fresh by (simp add: c_def include_players_def)
    show "clubs db' = clubs db @ [\<lparr>club_id = club_id c, club_name = trim n\<rparr>]"
      by (simp add: db'_def c_def include_players_def)
    show "players db' = players db" by (simp add: db'_def)
    show "statistics db' = statistics db" by (simp add: db'_def)
    show "\<forall>n'. trim n' = trim n \<longrightarrow> createClub db' n' = (Inl ClubAlreadyExists, db')"
      using again by blast
  qed
qed

text \<open>The three cases of C2 at concrete states.\<close>

theorem createClub_cases_witness:
  "createClub db_foo (js ''  '') = (Inl ClubNameRequired, db_foo) \<and>
   createClub db_foo (js '' Foo '') = (Inl ClubAlreadyExists, db_foo) \<and>
   (\<exists>c db'. createClub empty_database (js '' Foo'') = (Inr c, db') \<and>
       club_name c = js ''Foo'' \<and> incl_players c = [] \<and>
       createClub db' (js ''Foo '') = (Inl ClubAlreadyExists, db'))"
proof -
  have t0: "trim (js ''  '') = []" and t1: "trim (js '' Foo '') = js ''Foo''"
    and t2: "trim (js '' Foo'') = js ''Foo''" and t3: "trim (js ''Foo '') = js ''Foo''"
    by (simp_all add: trim_def js_def isWhiteSpace_def)
  have ne: "js ''Foo'' \<noteq> []" by (simp add: js_def)
  have a: "js ''Foo'' \<in> club_name ` set (clubs db_foo)" by (simp add: db_foo_def)
  have b: "js ''Foo'' \<notin> club_name ` set (clubs empty_database)" by (simp add: empty_database_def)
  from createClub_cases[of "js ''  ''" db_foo] t0
  have "createClub db_foo (js ''  '') = (Inl ClubNameRequired, db_foo)" by simp
  moreover from createClub_cases[of "js '' Foo ''" db_foo] t1 ne a
  have "createClub db_foo (js '' Foo '') = (Inl ClubAlreadyExists, db_foo)" by simp
  moreover from createClub_cases[of "js '' Foo''" empty_database] t2 t3 ne b schema_ok_empty
  have "\<exists>c db'. createClub empty_database (js '' Foo'') = (Inr c, db') \<and>
       club_name c = js ''Foo'' \<and> incl_players c = [] \<and>
       createClub db' (js ''Foo '') = (Inl ClubAlreadyExists, db')"
    by (simp only: simp_thms) blast
  ultimately show ?thesis by blast
qed

subsection \<open>Renaming a club\<close>

text \<open>
  Claim C4 at a failing input. The only club is "Foo", with identifier 1; renaming it to
  " Foo", which trims to its own name, fails with "Ja existe um clube com este nome" although no
  other club has that name: the service compares the untrimmed name with the current one and
  then looks the trimmed name up among all clubs, the club itself included.
\<close>

theorem updateClub_own_name_untrimmed:
  "updateClub db_foo 1 (Some (js '' Foo'')) = (Inl ClubAlreadyExists, db_foo)"
  by (simp add: updateClub_def db_foo_def ClubsRepository_findById_def prisma_club_findUnique_def
      ClubsRepository_findByName_def prisma_club_findFirst_def js_def trim_def isWhiteSpace_def
      include_players_def fits_int64_def)

lemma list_all2_map_same: "(\<And>x. x \<in> set xs \<Longrightarrow> P x (f x)) \<Longrightarrow> list_all2 P xs (map f xs)"
  by (induction xs) auto

text \<open>
  Claim C9. When \<^verbatim>\<open>updateClub\<close> returns a club, the returned club has the addressed
  identifier and the players (with their statistics) that the club had before the call; the club
  table keeps its rows in place, every row keeps its identifier and every row with another
  identifier is unchanged; the player table, the statistics table and the three key counters
  are unchanged.
\<close>

theorem updateClub_frame:
  assumes "updateClub db i data_name = (Inr (Some c), db')"
  shows "club_id c = i \<and>
         incl_players c = map (include_statistics db) (filter (\<lambda>p. player_clubId p = i) (players db)) \<and>
         (\<exists>c0. ClubsRepository_findById db i = Inr (Some c0) \<and> incl_players c = incl_players c0) \<and>
         list_all2 (\<lambda>r r'. club_id r' = club_id r \<and> (club_id r \<noteq> i \<longrightarrow> r' = r)) (clubs db) (clubs db') \<and>
         players db' = players db \<and> statistics db' = statistics db \<and>
         clubs_seq db' = clubs_seq db \<and> players_seq db' = players_seq db \<and>
         statistics_seq db' = statistics_seq db"
proof -
  from assms obtain c0 where c0: "ClubsRepository_findById db i = Inr (Some c0)"
    by (auto simp: updateClub_def split: if_splits option.splits sum.splits)
  from assms c0 have up: "ClubsRepository_update db i (map_option trim data_name) = (Some c, db')"
    by (auto simp: updateClub_def split: if_splits option.splits prod.splits)
  from c0 obtain r0 where r0: "find (\<lambda>c. club_id c = i) (clubs db) = Some r0"
    by (auto simp: ClubsRepository_findById_def prisma_club_findUnique_def split: if_splits)
  then have r0i: "club_id r0 = i" by (auto dest: find_club_id_Some)
  note c0p = ClubsRepository_findById_Some[OF c0]
  show ?thesis
  proof (cases "map_option trim data_name")
    case None
    with up r0 have "c = include_players db r0" "db' = db"
      by (auto simp: ClubsRepository_update_def prisma_club_update_def split: prod.splits)
    then show ?thesis using r0i c0 c0p
      by (auto simp: include_players_def list_all2_same)
  next
    case (Some m)
    let ?f = "\<lambda>c'. if club_id c' = i then c'\<lparr>club_name := m\<rparr> else c'"
    from up r0 Some have c: "c = include_players db' (r0\<lparr>club_name := m\<rparr>)"
      and d: "db' = db\<lparr>clubs := map ?f (clubs db)\<rparr>"
      by (auto simp: ClubsRepository_update_def prisma_club_update_def Let_def
               split: prod.splits if_splits)
    have "list_all2 (\<lambda>r r'. club_id r' = club_id r \<and> (club_id r \<noteq> i \<longrightarrow> r' = r)) (clubs db) (map ?f (clubs db))"
      by (rule list_all2_map_same) simp
    then show ?thesis using r0i c0 c0p c d
      by (simp add: include_players_def include_statistics_def statistics_of_def)
  qed
qed

text \<open>C9 at the renaming of "Real Madrid" to "Real".\<close>

theorem updateClub_frame_witness:
  "updateClub db_vini 1 (Some (js ''Real ''))
     = (Inr (Some (include_players db_vini \<lparr>club_id = 1, club_name = js ''Real''\<rparr>)),
        db_vini\<lparr>clubs := [\<lparr>club_id = 1, club_name = js ''Real''\<rparr>]\<rparr>) \<and>
   length (incl_players (include_players db_vini \<lparr>club_id = 1, club_name = js ''Real''\<rparr>)) = 1 \<and>
   players (db_vini\<lparr>clubs := [\<lparr>club_id = 1, club_name = js ''Real''\<rparr>]\<rparr>) = players db_vini"
proof -
  have h: "updateClub db_vini 1 (Some (js ''Real ''))
     = (Inr (Some (include_players db_vini \<lparr>club_id = 1, club_name = js ''Real''\<rparr>)),
        db_vini\<lparr>clubs := [\<lparr>club_id = 1, club_name = js ''Real''\<rparr>]\<rparr>)"
    by (simp add: updateClub_def db_vini_def ClubsRepository_findById_def prisma_club_findUnique_def
      ClubsRepository_findByName_def prisma_club_findFirst_def js_def trim_def isWhiteSpace_def
      include_players_def ClubsRepository_update_def prisma_club_update_def include_statistics_def
      statistics_of_def fits_int64_def)
  have "length (filter (\<lambda>p. player_clubId p = 1) (players db_vini)) = 1"
    by (simp add: db_vini_def)
  with updateClub_frame[OF h] h show ?thesis by simp
qed

subsection \<open>Updating statistics\<close>

lemma find_statistics_None:
  "find (\<lambda>s. statistics_playerId s = q) ss = None \<longleftrightarrow> q \<notin> statistics_playerId ` set ss"
  by (auto simp: find_None_iff)

lemma statistics_of_None:
  "statistics_of db q = None \<longleftrightarrow> q \<notin> statistics_playerId ` set (statistics db)"
  by (simp add: statistics_of_def find_statistics_None)

lemma apply_statistics_update_playerId [simp]:
  "statistics_playerId (apply_statistics_update d s) = statistics_playerId s"
  by (simp add: apply_statistics_update_def)

lemma find_map_update:
  "find (\<lambda>s. statistics_playerId s = q)
        (map (\<lambda>s'. if statistics_playerId s' = k then apply_statistics_update d s' else s') ss) =
   map_option (\<lambda>s'. if statistics_playerId s' = k then apply_statistics_update d s' else s')
        (find (\<lambda>s. statistics_playerId s = q) ss)"
  by (induction ss) auto

lemma set_map_filter_id: "set (List.map_filter (\<lambda>v. v) xs) = {v. Some v \<in> set xs}"
  by (induction xs) (auto simp: map_filter_simps split: option.splits)

lemma set_statsToValidate:
  "set (statsToValidate d) =
     {v. Some v \<in> {us_overall d, us_pace d, us_shooting d, us_passing d, us_dribbling d,
                    us_defending d, us_physical d}}"
  unfolding statsToValidate_def set_map_filter_id by simp

lemma find_invalid_None:
  "find (\<lambda>v. \<not> validRange v) vs = None \<longleftrightarrow> (\<forall>v\<in>set vs. 0 \<le> v \<and> v \<le> 100)"
  by (auto simp: find_None_iff validRange_def)

lemma prisma_statistics_update_Some:
  assumes "statistics_of db q = Some s"
  shows "PlayersRepository_updateStatistics db q d =
           (Some (apply_statistics_update d s),
            db\<lparr>statistics := map (\<lambda>s'. if statistics_playerId s' = q
                                       then apply_statistics_update d s' else s') (statistics db)\<rparr>)"
  using assms
  by (simp add: PlayersRepository_updateStatistics_def prisma_statistics_update_def statistics_of_def)

lemma prisma_statistics_update_None:
  assumes "statistics_of db q = None"
  shows "PlayersRepository_updateStatistics db q d = (None, db)"
  using assms
  by (simp add: PlayersRepository_updateStatistics_def prisma_statistics_update_def statistics_of_def)

text \<open>
  Claim C3. For every \<open>playerId > 0\<close> and every partial update of the seven scores: if a
  supplied score is outside 0..100, the call fails with "As estatisticas devem estar entre 0 e
  100" (a validation error) and the state is unchanged; if every supplied score is in range and
  no statistics row belongs to the player, the call returns \<^verbatim>\<open>false\<close> and the state is
  unchanged; if every supplied score is in range and a statistics row belongs to the player, the
  call returns \<^verbatim>\<open>true\<close>, each supplied field of that row has the supplied value, each other
  field keeps its value, and the rows of other players, the clubs and the players are unchanged.
\<close>

theorem updatePlayerStatistics_cases:
  assumes "0 < playerId"
  shows
   "((\<exists>v\<in>supplied d. v < 0 \<or> 100 < v) \<longrightarrow>
        updatePlayerStatistics db playerId d = (Inl StatisticsOutOfRange, db)) \<and>
    ((\<forall>v\<in>supplied d. 0 \<le> v \<and> v \<le> 100) \<and> playerId \<notin> statistics_playerId ` set (statistics db) \<longrightarrow>
        updatePlayerStatistics db playerId d = (Inr False, db)) \<and>
    ((\<forall>v\<in>supplied d. 0 \<le> v \<and> v \<le> 100) \<and> playerId \<in> statistics_playerId ` set (statistics db) \<longrightarrow>
        (\<exists>s s' db'. updatePlayerStatistics db playerId d = (Inr True, db') \<and>
           statistics_of db playerId = Some s \<and> statistics_of db' playerId = Some s' \<and>
           overall s' = (case us_overall d of Some v \<Rightarrow> v | None \<Rightarrow> overall s) \<and>
           pace s' = (case us_pace d of Some v \<Rightarrow> v | None \<Rightarrow> pace s) \<and>
           shooting s' = (case us_shooting d of Some v \<Rightarrow> v | None \<Rightarrow> shooting s) \<and>
           passing s' = (case us_passing d of Some v \<Rightarrow> v | None \<Rightarrow> passing s) \<and>
           dribbling s' = (case us_dribbling d of Some v \<Rightarrow> v | None \<Rightarrow> dribbling s) \<and>
           defending s' = (case us_defending d of Some v \<Rightarrow> v | None \<Rightarrow> defending s) \<and>
           physical s' = (case us_physical d of Some v \<Rightarrow> v | None \<Rightarrow> physical s) \<and>
           statistics_id s' = statistics_id s \<and> statistics_playerId s' = playerId \<and>
           (\<forall>q. q \<noteq> playerId \<longrightarrow> statistics_of db' q = statistics_of db q) \<and>
           clubs db' = clubs db \<and> players db' = players db))"
proof (intro conjI impI)
  assume "\<exists>v\<in>supplied d. v < 0 \<or> 100 < v"
  then have "find (\<lambda>v. \<not> validRange v) (statsToValidate d) \<noteq> None"
    unfolding find_invalid_None set_statsToValidate supplied_def by force
  with assms show "updatePlayerStatistics db playerId d = (Inl StatisticsOutOfRange, db)"
    by (simp add: updatePlayerStatistics_def)
next
  assume a: "(\<forall>v\<in>supplied d. 0 \<le> v \<and> v \<le> 100) \<and> playerId \<notin> statistics_playerId ` set (statistics db)"
  then have v: "find (\<lambda>v. \<not> validRange v) (statsToValidate d) = None"
    unfolding find_invalid_None set_statsToValidate supplied_def by simp
  from a have "statistics_of db playerId = None" by (simp add: statistics_of_None)
  then show "updatePlayerStatistics db playerId d = (Inr False, db)"
    using assms v by (simp add: updatePlayerStatistics_def prisma_statistics_update_None)
next
  assume a: "(\<forall>v\<in>supplied d. 0 \<le> v \<and> v \<le> 100) \<and> playerId \<in> statistics_playerId ` set (statistics db)"
  then have v: "find (\<lambda>v. \<not> validRange v) (statsToValidate d) = None"
    unfolding find_invalid_None set_statsToValidate supplied_def by simp
  from a obtain s where s: "statistics_of db playerId = Some s"
    using statistics_of_None[of db playerId] by auto
  then have sp: "statistics_playerId s = playerId"
    by (auto simp: statistics_of_def find_Some_iff)
  let ?f = "\<lambda>s'. if statistics_playerId s' = playerId then apply_statistics_update d s' else s'"
  let ?db' = "db\<lparr>statistics := map ?f (statistics db)\<rparr>"
  have r: "updatePlayerStatistics db playerId d = (Inr True, ?db')"
    using assms v by (simp add: updatePlayerStatistics_def prisma_statistics_update_Some[OF s])
  have s': "statistics_of ?db' q = map_option ?f (statistics_of db q)" for q
    by (simp add: statistics_of_def find_map_update)
  have other: "statistics_of ?db' q = statistics_of db q" if "q \<noteq> playerId" for q
  proof (cases "statistics_of db q")
    case None
    then show ?thesis by (simp add: s')
  next
    case (Some t)
    then have "statistics_playerId t = q" by (auto simp: statistics_of_def find_Some_iff)
    with that Some show ?thesis by (simp add: s')
  qed
  show "\<exists>s s' db'. updatePlayerStatistics db playerId d = (Inr True, db') \<and>
           statistics_of db playerId = Some s \<and> statistics_of db' playerId = Some s' \<and>
           overall s' = (case us_overall d of Some v \<Rightarrow> v | None \<Rightarrow> overall s) \<and>
           pace s' = (case us_pace d of Some v \<Rightarrow> v | None \<Rightarrow> pace s) \<and>
           shooting s' = (case us_shooting d of Some v \<Rightarrow> v | None \<Rightarrow> shooting s) \<and>
           passing s' = (case us_passing d of Some v \<Rightarrow> v | None \<Rightarrow> passing s) \<and>
           dribbling s' = (case us_dribbling d of Some v \<Rightarrow> v | None \<Rightarrow> dribbling s) \<and>
           defending s' = (case us_defending d of Some v \<Rightarrow> v | None \<Rightarrow> defending s) \<and>
           physical s' = (case us_physical d of Some v \<Rightarrow> v | None \<Rightarrow> physical s) \<and>
           statistics_id s' = statistics_id s \<and> statistics_playerId s' = playerId \<and>
           (\<forall>q. q \<noteq> playerId \<longrightarrow> statistics_of db' q = statistics_of db q) \<and>
           clubs db' = clubs db \<and> players db' = players db"
  proof (intro exI conjI)
    show "updatePlayerStatistics db playerId d = (Inr True, ?db')" by (rule r)
    show "statistics_of db playerId = Some s" by (rule s)
    show "statistics_of ?db' playerId = Some (apply_statistics_update d s)"
      using s sp by (simp add: s')
    show "\<forall>q. q \<noteq> playerId \<longrightarrow> statistics_of ?db' q = statistics_of db q"
      using other by blast
  qed (simp_all add: apply_statistics_update_def set_field_def sp)
qed

text \<open>The three cases of C3 at the scenario of the specification:
  \<^verbatim>\<open>updatePlayerStatistics(1, {overall: 90})\<close> returns \<^verbatim>\<open>true\<close>, and afterwards
  \<^verbatim>\<open>overall\<close> is 90 and the six other scores are the original ones.\<close>

theorem updatePlayerStatistics_cases_witness:
  "updatePlayerStatistics db_vini 1 (only_overall 101) = (Inl StatisticsOutOfRange, db_vini) \<and>
   updatePlayerStatistics db_vini 2 (only_overall 90) = (Inr False, db_vini) \<and>
   (\<exists>s' db'. updatePlayerStatistics db_vini 1 (only_overall 90) = (Inr True, db') \<and>
      statistics_of db' 1 = Some s' \<and> overall s' = 90 \<and> pace s' = 95 \<and> shooting s' = 79 \<and>
      passing s' = 74 \<and> dribbling s' = 90 \<and> defending s' = 29 \<and> physical s' = 64)"
proof -
  have s: "supplied (only_overall v) = {v}" for v
    by (auto simp: supplied_def only_overall_def no_scores_def)
  have a: "1 \<in> statistics_playerId ` set (statistics db_vini)"
    and b: "2 \<notin> statistics_playerId ` set (statistics db_vini)"
    by (simp_all add: db_vini_def)
  have st: "statistics_of db_vini 1 = Some \<lparr>statistics_id = 1, overall = 88, pace = 95, shooting = 79,
      passing = 74, dribbling = 90, defending = 29, physical = 64, statistics_playerId = 1\<rparr>"
    by (simp add: statistics_of_def db_vini_def)
  have u: "us_overall (only_overall 90) = Some 90" "us_pace (only_overall 90) = None"
    "us_shooting (only_overall 90) = None" "us_passing (only_overall 90) = None"
    "us_dribbling (only_overall 90) = None" "us_defending (only_overall 90) = None"
    "us_physical (only_overall 90) = None"
    by (simp_all add: only_overall_def no_scores_def)
  from updatePlayerStatistics_cases[of 1 "only_overall 101" db_vini] s
  have "updatePlayerStatistics db_vini 1 (only_overall 101) = (Inl StatisticsOutOfRange, db_vini)"
    by simp
  moreover from updatePlayerStatistics_cases[of 2 "only_overall 90" db_vini] s b
  have "updatePlayerStatistics db_vini 2 (only_overall 90) = (Inr False, db_vini)"
    by simp
  moreover from updatePlayerStatistics_cases[of 1 "only_overall 90" db_vini] s a
  have "\<exists>s' db'. updatePlayerStatistics db_vini 1 (only_overall 90) = (Inr True, db') \<and>
      statistics_of db' 1 = Some s' \<and> overall s' = 90 \<and> pace s' = 95 \<and> shooting s' = 79 \<and>
      passing s' = 74 \<and> dribbling s' = 90 \<and> defending s' = 29 \<and> physical s' = 64"
    by (simp add: st u) blast
  ultimately show ?thesis by blast
qed

lemma apply_no_scores: "apply_statistics_update no_scores s = s"
  by (simp add: apply_statistics_update_def no_scores_def set_field_def)

text \<open>
  Claim C10. For every \<open>playerId > 0\<close>, the update that supplies none of the seven scores
  never fails: it returns \<^verbatim>\<open>true\<close> exactly when a statistics row belongs to the player, and
  the state after the call is the state before it.
\<close>

theorem updatePlayerStatistics_no_scores:
  assumes "0 < playerId"
  shows "updatePlayerStatistics db playerId no_scores =
           (Inr (playerId \<in> statistics_playerId ` set (statistics db)), db)"
proof (cases "statistics_of db playerId")
  case None
  then show ?thesis using assms statistics_of_None[of db playerId]
    by (simp add: updatePlayerStatistics_def prisma_statistics_update_None statsToValidate_def
        no_scores_def List.map_filter_def)
next
  case (Some s)
  have "map (\<lambda>s'. if statistics_playerId s' = playerId then apply_statistics_update no_scores s' else s')
          (statistics db) = statistics db"
    by (rule map_idI) (simp add: apply_no_scores)
  moreover have "statsToValidate no_scores = []"
    by (simp add: statsToValidate_def no_scores_def List.map_filter_def)
  ultimately show ?thesis using assms Some statistics_of_None[of db playerId]
    by (simp add: updatePlayerStatistics_def prisma_statistics_update_Some[OF Some])
qed

text \<open>C10 for the player with statistics and for an absent player.\<close>

theorem updatePlayerStatistics_no_scores_witness:
  "(0::int) < 1 \<and> updatePlayerStatistics db_vini 1 no_scores = (Inr True, db_vini) \<and>
   (0::int) < 2 \<and> updatePlayerStatistics db_vini 2 no_scores = (Inr False, db_vini)"
  using updatePlayerStatistics_no_scores[of 1 db_vini] updatePlayerStatistics_no_scores[of 2 db_vini]
  by (simp add: db_vini_def)

subsection \<open>Updating and filtering players\<close>

text \<open>
  Claim C5 at a failing input. \<^verbatim>\<open>updatePlayer(1, {clubId: -1})\<close> on the scenario state
  raises no error: the service checks the three string fields only, the client rejects the row
  for its foreign key, the repository turns that into \<^verbatim>\<open>null\<close>, and the service returns
  \<^verbatim>\<open>null\<close>.
\<close>

theorem updatePlayer_negative_clubId:
  "updatePlayer db_vini 1 (only_clubId (- 1)) = (Inr None, db_vini)"
  by (simp add: updatePlayer_def only_clubId_def is_blank_def PlayersRepository_update_def
      prisma_player_update_def db_vini_def)

text \<open>
  Claim C6 at a failing input. The filter \<^verbatim>\<open>{maxOverall: 0}\<close> passes validation, and
  \<^verbatim>\<open>findWithFilters\<close> drops it because 0 is falsy: the call returns every player, among
  them the one whose \<^verbatim>\<open>overall\<close> is 88.
\<close>

theorem getPlayersWithFilters_maxOverall_zero:
  "getPlayersWithFilters db_vini (only_maxOverall 0) = Inr (PlayersRepository_findAll db_vini) \<and>
   map (\<lambda>p. map_option overall (incl_statistics p)) (PlayersRepository_findAll db_vini) = [Some 88]"
  by (simp add: getPlayersWithFilters_def only_maxOverall_def PlayersRepository_findWithFilters_def
      build_where_def truthy_number_def truthy_string_def prisma_player_findMany_def
      player_matches_def holds_opt_def PlayersRepository_findAll_def db_vini_def
      include_relations_def statistics_of_def)

subsection \<open>Creating a player\<close>

text \<open>
  Claim C7. When the four required fields of \<^verbatim>\<open>createPlayer\<close> pass validation and no club
  has the given \<^verbatim>\<open>clubId\<close>, the call fails and the state is unchanged, so neither a player
  row nor a statistics row is stored: it fails with "As estatisticas devem estar entre 0 e 100"
  when a statistics payload with a score outside 0..100 is supplied, and with the foreign-key
  error of the client otherwise.
\<close>

theorem createPlayer_unknown_club:
  assumes "trim (cp_name d) \<noteq> []" and "trim (cp_nationality d) \<noteq> []"
    and "trim (cp_position d) \<noteq> []" and "0 < cp_clubId d"
    and "cp_clubId d \<notin> club_id ` set (clubs db)"
  shows "createPlayer db d =
           (Inl (if stats_out_of_range d then StatisticsOutOfRange
                 else Storage ForeignKeyConstraintFailed), db)"
proof -
  from assms have ne: "cp_name d \<noteq> []" "cp_nationality d \<noteq> []" "cp_position d \<noteq> []"
    using trim_nonempty by blast+
  from assms(5) have fk: "find (\<lambda>c. club_id c = cp_clubId d) (clubs db) = None"
    by (simp add: find_club_id_None)
  show ?thesis
  proof (cases "stats_out_of_range d")
    case True
    then have "(case cp_statistics d of
                 Some stats \<Rightarrow>
                   \<not> validRange (cs_overall stats) \<or> \<not> validRange (cs_pace stats) \<or>
                   \<not> validRange (cs_shooting stats) \<or> \<not> validRange (cs_passing stats) \<or>
                   \<not> validRange (cs_dribbling stats) \<or> \<not> validRange (cs_defending stats) \<or>
                   \<not> validRange (cs_physical stats)
               | None \<Rightarrow> False)"
      by (auto simp: stats_out_of_range_def validRange_def split: option.splits)
    with assms ne True show ?thesis by (simp add: createPlayer_def)
  next
    case False
    then have "\<not> (case cp_statistics d of
                 Some stats \<Rightarrow>
                   \<not> validRange (cs_overall stats) \<or> \<not> validRange (cs_pace stats) \<or>
                   \<not> validRange (cs_shooting stats) \<or> \<not> validRange (cs_passing stats) \<or>
                   \<not> validRange (cs_dribbling stats) \<or> \<not> validRange (cs_defending stats) \<or>
                   \<not> validRange (cs_physical stats)
               | None \<Rightarrow> False)"
      by (auto simp: stats_out_of_range_def validRange_def split: option.splits)
    with assms ne False fk show ?thesis
      by (simp add: createPlayer_def PlayersRepository_create_def prisma_player_create_def)
  qed
qed

text \<open>C7 for a player of the absent club 9.\<close>

theorem createPlayer_unknown_club_witness:
  "trim (cp_name vini_at_club_9) \<noteq> [] \<and> trim (cp_nationality vini_at_club_9) \<noteq> [] \<and>
   trim (cp_position vini_at_club_9) \<noteq> [] \<and> 0 < cp_clubId vini_at_club_9 \<and>
   cp_clubId vini_at_club_9 \<notin> club_id ` set (clubs db_vini) \<and>
   createPlayer db_vini vini_at_club_9 = (Inl (Storage ForeignKeyConstraintFailed), db_vini)"
proof -
  have h: "trim (cp_name vini_at_club_9) \<noteq> []" "trim (cp_nationality vini_at_club_9) \<noteq> []"
    "trim (cp_position vini_at_club_9) \<noteq> []" "0 < cp_clubId vini_at_club_9"
    "cp_clubId vini_at_club_9 \<notin> club_id ` set (clubs db_vini)"
    by (simp_all add: vini_at_club_9_def trim_def js_def isWhiteSpace_def db_vini_def)
  have "\<not> stats_out_of_range vini_at_club_9"
    by (simp add: stats_out_of_range_def vini_at_club_9_def)
  with createPlayer_unknown_club[OF h] h show ?thesis by simp
qed

subsection \<open>Rounding to a double\<close>

text \<open>The rounding error of a double is at most \<open>2 ^ -53\<close> of the number, and the
  integers up to \<open>2 ^ 53\<close> are doubles.\<close>

lemma pow2_powi: "pow2 e = 2 powi e"
  unfolding pow2_def power_int_def by (simp add: inverse_eq_divide power_one_over)

lemma pow2_pos [simp]: "0 < pow2 e"
  by (simp add: pow2_powi)


lemma pow2_nonneg [simp]: "0 \<le> pow2 e"
  using pow2_pos[of e] by (rule less_imp_le)

lemma pow2_nonzero [simp]: "pow2 e \<noteq> 0"
  using pow2_pos[of e] by (rule less_imp_neq[symmetric])


lemma pow2_nat: "pow2 (int n) = 2 ^ n"
  by (simp add: pow2_def)

lemma pow2_0 [simp]: "pow2 0 = 1"
  by (simp add: pow2_def)





lemma round_even_int [simp]: "round_even (of_int m) = m"
  by (simp add: round_even_def)










subsection \<open>Counting and ranking\<close>


lemma set_first_encounter [simp]: "set (first_encounter ks) = set ks"
  by (simp add: first_encounter_def)

lemma distinct_first_encounter [simp]: "distinct (first_encounter ks)"
  by (simp add: first_encounter_def)












lemma length_as_numbers [simp]: "length (as_numbers es) = length es"
  by (simp add: as_numbers_def)




text \<open>When no value is an array index, the grouping object lists its keys in the order of
  their first occurrence.\<close>

lemma property_order_no_index:
  assumes "\<forall>k\<in>set ks. \<not> is_array_index k"
  shows "property_order ks = first_encounter ks"
proof -
  have "filter is_array_index (first_encounter ks) = []"
    using assms by (simp add: filter_empty_conv)
  moreover have "filter (\<lambda>k. \<not> is_array_index k) (first_encounter ks) = first_encounter ks"
    using assms by (simp add: filter_id_conv)
  ultimately show ?thesis by (simp add: property_order_def)
qed

subsection \<open>The service keeps the overall scores in range\<close>

lemma overall_in_range_empty: "overall_in_range empty_database"
  by (simp add: overall_in_range_def empty_database_def)

lemma overall_in_range_createPlayer:
  assumes "overall_in_range db"
  shows "overall_in_range (snd (createPlayer db d))"
proof (cases "cp_statistics d")
  case None
  with assms show ?thesis
    by (auto simp: createPlayer_def PlayersRepository_create_def prisma_player_create_def Let_def
        overall_in_range_def)
next
  case (Some st)
  show ?thesis
  proof (cases "validRange (cs_overall st)")
    case False
    with Some assms show ?thesis by (simp add: createPlayer_def)
  next
    case True
    then have "0 \<le> cs_overall st \<and> cs_overall st \<le> 100" by (simp add: validRange_def)
    with Some assms show ?thesis
      by (auto simp: createPlayer_def PlayersRepository_create_def prisma_player_create_def Let_def
          overall_in_range_def)
  qed
qed

lemma overall_in_range_updatePlayerStatistics:
  assumes "overall_in_range db"
  shows "overall_in_range (snd (updatePlayerStatistics db i d))"
proof (cases "i = 0 \<or> i \<le> 0 \<or> find (\<lambda>v. \<not> validRange v) (statsToValidate d) \<noteq> None")
  case True
  with assms show ?thesis by (auto simp: updatePlayerStatistics_def)
next
  case False
  then have v: "\<forall>v\<in>set (statsToValidate d). validRange v" by (auto simp: find_None_iff)
  have o: "0 \<le> overall (apply_statistics_update d s) \<and> overall (apply_statistics_update d s) \<le> 100"
    if "0 \<le> overall s \<and> overall s \<le> 100" for s
  proof (cases "us_overall d")
    case None
    with that show ?thesis by (simp add: apply_statistics_update_def set_field_def)
  next
    case (Some x)
    then have "x \<in> set (statsToValidate d)"
      by (simp add: statsToValidate_def List.map_filter_def)
    with v have "validRange x" by blast
    with Some show ?thesis
      by (simp add: apply_statistics_update_def set_field_def validRange_def)
  qed
  show ?thesis
  proof (cases "find (\<lambda>s. statistics_playerId s = i) (statistics db)")
    case None
    with False assms show ?thesis
      by (simp add: updatePlayerStatistics_def PlayersRepository_updateStatistics_def
          prisma_statistics_update_def)
  next
    case (Some s0)
    with False assms o show ?thesis
      by (auto simp: updatePlayerStatistics_def PlayersRepository_updateStatistics_def
          prisma_statistics_update_def overall_in_range_def)
  qed
qed

lemma overall_in_range_updatePlayer:
  assumes "overall_in_range db"
  shows "overall_in_range (snd (updatePlayer db i d))"
proof -
  have "statistics (snd (prisma_player_update db i d')) = statistics db" for d'
    by (simp add: prisma_player_update_def Let_def split: option.splits)
  then have "statistics (snd (PlayersRepository_update db i d')) = statistics db" for d'
    by (simp add: PlayersRepository_update_def split: prod.splits sum.splits)
       (metis snd_conv)
  then have "statistics (snd (updatePlayer db i d)) = statistics db"
    by (simp add: updatePlayer_def split: prod.splits) (metis snd_conv)
  with assms show ?thesis by (simp add: overall_in_range_def)
qed

lemma statistics_createClub: "statistics (snd (createClub db n)) = statistics db"
  by (auto simp: createClub_def ClubsRepository_create_def prisma_club_create_def Let_def
           split: option.splits)

lemma statistics_updateClub: "statistics (snd (updateClub db i dn)) = statistics db"
  by (auto simp: updateClub_def ClubsRepository_update_def prisma_club_update_def Let_def
           split: option.splits sum.splits)

lemma statistics_deleteClub: "set (statistics (snd (deleteClub db i))) \<subseteq> set (statistics db)"
  by (auto simp: deleteClub_def ClubsRepository_delete_def prisma_club_delete_def Let_def
           split: option.splits sum.splits)

lemma overall_in_range_clubs:
  assumes "overall_in_range db"
  shows "overall_in_range (snd (createClub db n))"
    and "overall_in_range (snd (updateClub db i dn))"
    and "overall_in_range (snd (deleteClub db i))"
  using assms statistics_deleteClub[of db i]
  by (auto simp: overall_in_range_def statistics_createClub statistics_updateClub)

subsection \<open>The aggregate over all players\<close>

lemma player_fields_include_relations [simp]:
  "player_position (include_relations db p) = player_position p"
  "player_nationality (include_relations db p) = player_nationality p"
  "incl_statistics (include_relations db p) = statistics_of db (player_id p)"
  by (simp_all add: include_relations_def)











end
